theory Spec2Isabelle
  imports Complex_Main "HOL-Library.Sublist"
begin

section \<open>Python values, errors and the process environment\<close>

text \<open>
  The module \<^verbatim>\<open>analysis/framework.py\<close> reads two environment variables with
  \<^verbatim>\<open>os.getenv\<close>, which returns \<^verbatim>\<open>None\<close> for a variable that is not set and the
  variable's string otherwise. A value that may be \<^verbatim>\<open>None\<close> or a string is a
  \<open>pyval\<close>; the process environment is a map from names to strings.
\<close>

datatype pyval = PyNone | PyStr string

datatype error = TypeError | MissingParameterException | InvalidDescriptor

type_synonym environ = "string \<rightharpoonup> string"

definition os_getenv :: "environ \<Rightarrow> string \<Rightarrow> pyval" where
  "os_getenv env k = (case env k of None \<Rightarrow> PyNone | Some v \<Rightarrow> PyStr v)"

section \<open>\<^verbatim>\<open>os.path.join\<close> and \<^verbatim>\<open>os.path.isabs\<close> (posixpath)\<close>

text \<open>
  \<^verbatim>\<open>
  def join(a, *p):
      a = os.fspath(a)
      sep = _get_sep(a)
      path = a
      for b in map(os.fspath, p):
          if b.startswith(sep):
              path = b
          elif not path or path.endswith(sep):
              path += b
          else:
              path += sep + b
      return path

  def isabs(s):
      return s.startswith(sep)
  \<close>
  \<^verbatim>\<open>os.fspath(None)\<close> raises \<^verbatim>\<open>TypeError\<close>.
\<close>

definition sep :: string where
  "sep = ''/''"

definition startswith :: "string \<Rightarrow> string \<Rightarrow> bool" where
  "startswith s p = prefix p s"

definition endswith :: "string \<Rightarrow> string \<Rightarrow> bool" where
  "endswith s p = suffix p s"

definition join_step :: "string \<Rightarrow> string \<Rightarrow> string" where
  "join_step path b =
     (if startswith b sep then b
      else if path = [] \<or> endswith path sep then path @ b
      else path @ sep @ b)"

fun join_loop :: "string \<Rightarrow> pyval list \<Rightarrow> error + string" where
  "join_loop path [] = Inr path"
| "join_loop path (PyNone # p) = Inl TypeError"
| "join_loop path (PyStr b # p) = join_loop (join_step path b) p"

fun os_path_join :: "pyval list \<Rightarrow> error + string" where
  "os_path_join [] = Inl TypeError"
| "os_path_join (PyNone # p) = Inl TypeError"
| "os_path_join (PyStr a # p) = join_loop a p"

definition os_path_isabs :: "string \<Rightarrow> bool" where
  "os_path_isabs s = startswith s sep"

text \<open>
  A path segment that \<^verbatim>\<open>os.path.join\<close> appends after a separator: it is not empty and
  neither starts nor ends with the separator.
\<close>

definition plain_segment :: "string \<Rightarrow> bool" where
  "plain_segment b = (b \<noteq> [] \<and> \<not> startswith b sep \<and> \<not> endswith b sep)"

section \<open>The base task\<close>

text \<open>
  \<^verbatim>\<open>
  class Task(law.Task):
      version = luigi.Parameter()

      def store_parts(self):
          return (self.__class__.__name__, self.version)

      def local_path(self, *path):
          parts = (os.getenv("ANALYSIS_DATA_PATH"),) + self.store_parts() + path
          return os.path.join(*parts)
  \<close>
  A task object carries the name of its class and the value of its \<^verbatim>\<open>version\<close>
  parameter; classes that inherit from \<^verbatim>\<open>Task\<close> extend the record.
\<close>

record Task =
  class_name :: string
  version :: string

text \<open>
  \<^verbatim>\<open>version = luigi.Parameter()\<close> declares a parameter without a default value, and
  \<^verbatim>\<open>max_runtime = law.DurationParameter(default=3.0, unit="h", ...)\<close> one with the
  default of three hours. A declaration is modelled by its optional default.

  Modelled after luigi, which is a library and not part of the source file: how a task
  gets the value of a parameter when it is instantiated. luigi takes the value given to
  the constructor, as it is; without one it takes the value that is set for this
  parameter of this task family on the command line or in luigi's configuration files;
  without one it takes the declared default; and without a default it raises
  \<^verbatim>\<open>MissingParameterException\<close>. The settings of the command line and the
  configuration files are a function from the task family (the class name) and the
  parameter name to the value that is set, already parsed by the parameter.
\<close>

datatype 'a Parameter = Parameter "'a option"

type_synonym 'a settings = "string \<Rightarrow> string \<rightharpoonup> 'a"

definition no_settings :: "'a settings" where
  "no_settings family = Map.empty"

definition parameter_value ::
  "'a Parameter \<Rightarrow> 'a settings \<Rightarrow> string \<Rightarrow> string \<Rightarrow> 'a option \<Rightarrow> error + 'a" where
  "parameter_value p settings family name given =
     (case given of
        Some v \<Rightarrow> Inr v
      | None \<Rightarrow>
          (case settings family name of
             Some s \<Rightarrow> Inr s
           | None \<Rightarrow>
               (case p of
                  Parameter None \<Rightarrow> Inl MissingParameterException
                | Parameter (Some d) \<Rightarrow> Inr d)))"

definition Task_version :: "string Parameter" where
  "Task_version = Parameter None"

definition HTCondorWorkflow_max_runtime :: "real Parameter" where
  "HTCondorWorkflow_max_runtime = Parameter (Some 3)"

text \<open>
  Instantiation of a task of class \<open>cls\<close>: the version is resolved from its
  declaration; \<open>ext\<close> holds what an inheriting class adds to the object.
\<close>

definition Task_init ::
  "string settings \<Rightarrow> string \<Rightarrow> string option \<Rightarrow> 'a \<Rightarrow> error + 'a Task_scheme" where
  "Task_init settings cls version_arg ext =
     (case parameter_value Task_version settings cls ''version'' version_arg of
        Inl e \<Rightarrow> Inl e
      | Inr v \<Rightarrow> Inr \<lparr>class_name = cls, version = v, \<dots> = ext\<rparr>)"

definition store_parts :: "'a Task_scheme \<Rightarrow> string \<times> string" where
  "store_parts self = (class_name self, version self)"

definition local_path :: "'a Task_scheme \<Rightarrow> environ \<Rightarrow> string list \<Rightarrow> error + string" where
  "local_path self env path =
     (let parts = [os_getenv env ''ANALYSIS_DATA_PATH'']
                  @ (case store_parts self of (c, v) \<Rightarrow> [PyStr c, PyStr v])
                  @ map PyStr path
      in os_path_join parts)"

section \<open>The HTCondor workflow\<close>

text \<open>
  \<^verbatim>\<open>
  class HTCondorWorkflow(law.htcondor.HTCondorWorkflow):
      max_runtime = law.DurationParameter(default=3.0, unit="h", significant=False, ...)
  \<close>
  The methods of the workflow call \<^verbatim>\<open>self.local_path\<close>, so a workflow object is a
  task that also carries \<^verbatim>\<open>max_runtime\<close> (a number of hours).
\<close>

record HTCondorWorkflow = Task +
  max_runtime :: real

text \<open>
  Instantiation of a workflow task of class \<open>cls\<close>. The class body declares the two
  parameters and no constructor of its own, so instantiation resolves the version and
  then \<^verbatim>\<open>max_runtime\<close> from their declarations and stores the values; the source has
  no check of either value.
\<close>

definition HTCondorWorkflow_init ::
  "string settings \<Rightarrow> real settings \<Rightarrow> string \<Rightarrow> string option \<Rightarrow> real option
     \<Rightarrow> error + HTCondorWorkflow" where
  "HTCondorWorkflow_init version_settings duration_settings cls version_arg max_runtime_arg =
     (case parameter_value Task_version version_settings cls ''version'' version_arg of
        Inl e \<Rightarrow> Inl e
      | Inr v \<Rightarrow>
          (case parameter_value HTCondorWorkflow_max_runtime duration_settings cls
                  ''max_runtime'' max_runtime_arg of
             Inl e \<Rightarrow> Inl e
           | Inr r \<Rightarrow> Inr \<lparr>class_name = cls, version = v, max_runtime = r\<rparr>))"

text \<open>
  \<^verbatim>\<open>
  def local_target(self, *path):
      return law.LocalFileTarget(self.local_path(*path))

  def htcondor_output_directory(self):
      return law.LocalDirectoryTarget(self.local_path())
  \<close>
  A target object is modelled by the path it is constructed from.
\<close>

datatype target = LocalFileTarget string | LocalDirectoryTarget string

definition local_target :: "'a Task_scheme \<Rightarrow> environ \<Rightarrow> string list \<Rightarrow> error + target" where
  "local_target self env path =
     (case local_path self env path of Inl e \<Rightarrow> Inl e | Inr p \<Rightarrow> Inr (LocalFileTarget p))"

definition htcondor_output_directory ::
  "'w HTCondorWorkflow_scheme \<Rightarrow> environ \<Rightarrow> error + target" where
  "htcondor_output_directory self env =
     (case local_path self env [] of Inl e \<Rightarrow> Inl e | Inr p \<Rightarrow> Inr (LocalDirectoryTarget p))"

text \<open>
  The job configuration object that law hands to \<^verbatim>\<open>htcondor_job_config\<close>. The hook uses
  two of its attributes: the dictionary \<^verbatim>\<open>render_variables\<close> and the list
  \<^verbatim>\<open>custom_content\<close> of (key, value) tuples. All other attributes live in the
  extension part of the record.
\<close>

record job_config =
  render_variables :: "string \<rightharpoonup> pyval"
  custom_content :: "(string \<times> string) list"

text \<open>
  \<^verbatim>\<open>
  def htcondor_job_config(self, config, job_num, branches):
      config.render_variables["analysis_path"] = os.getenv("ANALYSIS_PATH")
      config.custom_content.append(("requirements", "(OpSysAndVer =?= \"CentOS7\")"))
      ''' config.custom_content.append(("+MaxRuntime", ...)) '''   # disabled
      config.custom_content.append(("getenv", "true"))
      config.custom_content.append(("on_exit_hold",
          "(ExitBySignal == True) || (ExitStatus != 0) || (ExitCode != 0)"))
      return config
  \<close>
  The in-place updates are written as successive updates of the configuration value.
\<close>

definition requirements_directive :: "string \<times> string" where
  "requirements_directive =
     (''requirements'', ''(OpSysAndVer =?= '' @ [CHR 0x22] @ ''CentOS7'' @ [CHR 0x22] @ '')'')"

definition getenv_directive :: "string \<times> string" where
  "getenv_directive = (''getenv'', ''true'')"

definition on_exit_hold_directive :: "string \<times> string" where
  "on_exit_hold_directive =
     (''on_exit_hold'', ''(ExitBySignal == True) || (ExitStatus != 0) || (ExitCode != 0)'')"

definition htcondor_job_config ::
  "'w HTCondorWorkflow_scheme \<Rightarrow> environ \<Rightarrow> 'a job_config_scheme \<Rightarrow> int \<Rightarrow> int list
     \<Rightarrow> 'a job_config_scheme" where
  "htcondor_job_config self env config job_num branches =
     (let c1 = config\<lparr>render_variables :=
                  (render_variables config)(''analysis_path'' \<mapsto> os_getenv env ''ANALYSIS_PATH'')\<rparr>;
          c2 = c1\<lparr>custom_content := custom_content c1 @ [requirements_directive]\<rparr>;
          c3 = c2\<lparr>custom_content := custom_content c2 @ [getenv_directive]\<rparr>;
          c4 = c3\<lparr>custom_content := custom_content c3 @ [on_exit_hold_directive]\<rparr>
      in c4)"

text \<open>
  Python passes the configuration by reference and the hook updates it in place. Where
  the identity of the object matters, configurations live in a store, a function from
  addresses to configuration values; the call updates the object at the given address
  and returns that same address.
\<close>

type_synonym ref = nat

type_synonym 'a store = "ref \<Rightarrow> 'a job_config_scheme"

definition htcondor_job_config_inplace ::
  "'w HTCondorWorkflow_scheme \<Rightarrow> environ \<Rightarrow> 'a store \<Rightarrow> ref \<Rightarrow> int \<Rightarrow> int list
     \<Rightarrow> ref \<times> 'a store" where
  "htcondor_job_config_inplace self env st config job_num branches =
     (config, st(config := htcondor_job_config self env (st config) job_num branches))"

text \<open>Concrete objects for the evaluations below.\<close>

definition example_workflow :: HTCondorWorkflow where
  "example_workflow = \<lparr>class_name = ''CreateChars'', version = ''v1'', max_runtime = 3\<rparr>"

definition example_config :: job_config where
  "example_config = \<lparr>render_variables = Map.empty, custom_content = [(''universe'', ''vanilla'')]\<rparr>"

definition example_store :: "unit store" where
  "example_store r = example_config"

section \<open>The hold predicate and the job life cycle\<close>

text \<open>
  The value of the \<^verbatim>\<open>on_exit_hold\<close> directive is an expression of HTCondor's ClassAd
  language, which the scheduler evaluates on the exit attributes of a job; the job is
  put on hold when the value is true. The fragment that the directive uses is modelled:
  comparisons of an attribute with a literal, joined by \<^verbatim>\<open>||\<close>. An attribute may be
  undefined (a job that exits by signal has no exit code); a comparison with an
  undefined attribute is undefined, and a disjunction is true as soon as one side is.
\<close>

record job_ad =
  ExitBySignal :: "bool option"
  ExitStatus :: "int option"
  ExitCode :: "int option"

datatype bool_attr = AttrExitBySignal

datatype int_attr = AttrExitStatus | AttrExitCode

datatype classad_expr =
    BoolEq bool_attr bool
  | IntNe int_attr nat
  | Or classad_expr classad_expr

fun bool_attr_value :: "job_ad \<Rightarrow> bool_attr \<Rightarrow> bool option" where
  "bool_attr_value ad AttrExitBySignal = ExitBySignal ad"

fun int_attr_value :: "job_ad \<Rightarrow> int_attr \<Rightarrow> int option" where
  "int_attr_value ad AttrExitStatus = ExitStatus ad"
| "int_attr_value ad AttrExitCode = ExitCode ad"

fun classad_or :: "bool option \<Rightarrow> bool option \<Rightarrow> bool option" where
  "classad_or (Some True) _ = Some True"
| "classad_or _ (Some True) = Some True"
| "classad_or (Some False) (Some False) = Some False"
| "classad_or _ _ = None"

fun eval :: "job_ad \<Rightarrow> classad_expr \<Rightarrow> bool option" where
  "eval ad (BoolEq a b) = map_option (\<lambda>x. x = b) (bool_attr_value ad a)"
| "eval ad (IntNe a n) = map_option (\<lambda>x. x \<noteq> int n) (int_attr_value ad a)"
| "eval ad (Or e1 e2) = classad_or (eval ad e1) (eval ad e2)"

definition holds :: "job_ad \<Rightarrow> classad_expr \<Rightarrow> bool" where
  "holds ad e = (eval ad e = Some True)"

text \<open>The concrete syntax of an expression, as it stands in a submit file.\<close>

fun bool_attr_name :: "bool_attr \<Rightarrow> string" where
  "bool_attr_name AttrExitBySignal = ''ExitBySignal''"

fun int_attr_name :: "int_attr \<Rightarrow> string" where
  "int_attr_name AttrExitStatus = ''ExitStatus''"
| "int_attr_name AttrExitCode = ''ExitCode''"

fun digits :: "nat \<Rightarrow> string" where
  "digits n =
     (if n < 10 then [''0123456789'' ! n]
      else digits (n div 10) @ [''0123456789'' ! (n mod 10)])"

declare digits.simps [simp del]

fun unparse :: "classad_expr \<Rightarrow> string" where
  "unparse (BoolEq a b) =
     ''('' @ bool_attr_name a @ '' == '' @ (if b then ''True'' else ''False'') @ '')''"
| "unparse (IntNe a n) = ''('' @ int_attr_name a @ '' != '' @ digits n @ '')''"
| "unparse (Or e1 e2) = unparse e1 @ '' || '' @ unparse e2"

definition on_exit_hold_expr :: classad_expr where
  "on_exit_hold_expr =
     Or (Or (BoolEq AttrExitBySignal True) (IntNe AttrExitStatus 0)) (IntNe AttrExitCode 0)"

text \<open>
  A job that exits by signal, or with an exit status or an exit code that is defined
  and not zero.
\<close>

definition nonzero_exit :: "job_ad \<Rightarrow> bool" where
  "nonzero_exit ad =
     (ExitBySignal ad = Some True
      \<or> (case ExitStatus ad of None \<Rightarrow> False | Some s \<Rightarrow> s \<noteq> 0)
      \<or> (case ExitCode ad of None \<Rightarrow> False | Some c \<Rightarrow> c \<noteq> 0))"

text \<open>
  Modelled from the spec: the state machine that the WorkflowSupervisor keeps per job
  (section 4.4 of the spec); the code that supervises submitted jobs is not part of
  the source file. The transitions, in the spec's words: Pending, on a poll where the
  scheduler accepted the job, becomes Running; Running, on a poll with exit code 0,
  becomes Completed; Running, on a poll with a nonzero exit or a signal that matches
  the \<^verbatim>\<open>on_exit_hold\<close> predicate, becomes Held; Held becomes Running on release and
  Failed when the retries are used up; any state becomes Removed on an operator's
  removal or a timeout. Completed, Failed and Removed are terminal.
\<close>

datatype JobState = Pending | Running | Held | Completed | Failed | Removed

datatype event =
    SchedulerAccepted
  | JobExited job_ad
  | PolicyRelease
  | MaxRetriesExceeded
  | OperatorRemove
  | TimeoutExceeded

fun terminal :: "JobState \<Rightarrow> bool" where
  "terminal Completed = True"
| "terminal Failed = True"
| "terminal Removed = True"
| "terminal _ = False"

fun supervisor_step :: "classad_expr \<Rightarrow> JobState \<Rightarrow> event \<Rightarrow> JobState" where
  "supervisor_step hold s OperatorRemove = Removed"
| "supervisor_step hold s TimeoutExceeded = Removed"
| "supervisor_step hold Pending SchedulerAccepted = Running"
| "supervisor_step hold Running (JobExited ad) =
     (if nonzero_exit ad \<and> holds ad hold then Held
      else if ExitCode ad = Some 0 then Completed
      else Running)"
| "supervisor_step hold Held PolicyRelease = Running"
| "supervisor_step hold Held MaxRetriesExceeded = Failed"
| "supervisor_step hold s _ = s"

section \<open>Properties of the rendered job configuration\<close>

lemma custom_content_htcondor_job_config:
  "custom_content (htcondor_job_config self env config job_num branches) =
     custom_content config @ [requirements_directive, getenv_directive, on_exit_hold_directive]"
  by (simp add: htcondor_job_config_def)

lemma render_variables_htcondor_job_config:
  "render_variables (htcondor_job_config self env config job_num branches) =
     (render_variables config)(''analysis_path'' \<mapsto> os_getenv env ''ANALYSIS_PATH'')"
  by (simp add: htcondor_job_config_def)

lemma more_htcondor_job_config:
  "job_config.more (htcondor_job_config self env config job_num branches) = job_config.more config"
  by (simp add: htcondor_job_config_def)

text \<open>
  Claim C1. Whatever directives the incoming configuration already holds, the rendered
  custom-directive list contains the three policy directives: the requirements clause
  that forces CentOS7, \<^verbatim>\<open>getenv = true\<close> and the \<^verbatim>\<open>on_exit_hold\<close> policy, in this
  relative order. The code has no override switch: the three directives are appended
  unconditionally, after the directives that were already there.
\<close>

theorem policy_directives_present:
  "custom_content (htcondor_job_config self env config job_num branches) =
     custom_content config @ [requirements_directive, getenv_directive, on_exit_hold_directive]
   \<and> subseq [requirements_directive, getenv_directive, on_exit_hold_directive]
        (custom_content (htcondor_job_config self env config job_num branches))
   \<and> requirements_directive = (''requirements'', ''(OpSysAndVer =?= '' @ [CHR 0x22] @ ''CentOS7'' @ [CHR 0x22] @ '')'')
   \<and> getenv_directive = (''getenv'', ''true'')
   \<and> fst on_exit_hold_directive = ''on_exit_hold''"
proof -
  have "subseq [requirements_directive, getenv_directive, on_exit_hold_directive]
          (custom_content config @ [requirements_directive, getenv_directive, on_exit_hold_directive])"
    by (rule list_emb_append2) simp
  then show ?thesis
    by (simp add: custom_content_htcondor_job_config requirements_directive_def
        getenv_directive_def on_exit_hold_directive_def)
qed

lemma htcondor_job_config_inplace_object:
  "snd (htcondor_job_config_inplace self env st config job_num branches) config =
     (st config)\<lparr>
        render_variables :=
          (render_variables (st config))(''analysis_path'' \<mapsto> os_getenv env ''ANALYSIS_PATH''),
        custom_content :=
          custom_content (st config)
            @ [requirements_directive, getenv_directive, on_exit_hold_directive]\<rparr>"
  by (simp add: htcondor_job_config_inplace_def htcondor_job_config_def)

text \<open>
  Claim C2 as stated does not hold: \<^verbatim>\<open>htcondor_job_config\<close> is not a pure function. It
  updates the configuration object in place, so two calls with the same configuration
  object, job number and branches in the same environment produce different
  configurations: after the first call the object holds the three policy directives
  once, after the second call twice.
\<close>

theorem htcondor_job_config_pure_counterexample:
  "custom_content (snd (htcondor_job_config_inplace example_workflow
       [''ANALYSIS_PATH'' \<mapsto> ''/afs/analysis''] example_store 0 0 [0]) 0)
     = [(''universe'', ''vanilla''), requirements_directive, getenv_directive,
        on_exit_hold_directive]
   \<and> custom_content (snd (htcondor_job_config_inplace example_workflow
       [''ANALYSIS_PATH'' \<mapsto> ''/afs/analysis'']
       (snd (htcondor_job_config_inplace example_workflow
          [''ANALYSIS_PATH'' \<mapsto> ''/afs/analysis''] example_store 0 0 [0])) 0 0 [0]) 0)
     = [(''universe'', ''vanilla''), requirements_directive, getenv_directive,
        on_exit_hold_directive, requirements_directive, getenv_directive,
        on_exit_hold_directive]
   \<and> snd (htcondor_job_config_inplace example_workflow
       [''ANALYSIS_PATH'' \<mapsto> ''/afs/analysis'']
       (snd (htcondor_job_config_inplace example_workflow
          [''ANALYSIS_PATH'' \<mapsto> ''/afs/analysis''] example_store 0 0 [0])) 0 0 [0]) 0
     \<noteq> snd (htcondor_job_config_inplace example_workflow
       [''ANALYSIS_PATH'' \<mapsto> ''/afs/analysis''] example_store 0 0 [0]) 0"
proof -
  let ?env = "[''ANALYSIS_PATH'' \<mapsto> ''/afs/analysis'']"
  let ?st1 = "snd (htcondor_job_config_inplace example_workflow ?env example_store 0 0 [0])"
  let ?st2 = "snd (htcondor_job_config_inplace example_workflow ?env ?st1 0 0 [0])"
  have one: "custom_content (?st1 0)
      = [(''universe'', ''vanilla''), requirements_directive, getenv_directive,
         on_exit_hold_directive]"
    by (simp add: htcondor_job_config_inplace_def custom_content_htcondor_job_config
        example_store_def example_config_def)
  have two: "custom_content (?st2 0)
      = [(''universe'', ''vanilla''), requirements_directive, getenv_directive,
         on_exit_hold_directive, requirements_directive, getenv_directive,
         on_exit_hold_directive]"
    by (simp add: htcondor_job_config_inplace_def custom_content_htcondor_job_config
        example_store_def example_config_def)
  from one two have "custom_content (?st2 0) \<noteq> custom_content (?st1 0)"
    by simp
  then have "?st2 0 \<noteq> ?st1 0"
    by metis
  with one two show ?thesis
    by simp
qed

text \<open>
  Claim C2, amended. \<^verbatim>\<open>htcondor_job_config\<close> updates the configuration object in place.
  The configuration it produces is determined by the state of that object at the call
  and by the value of \<^verbatim>\<open>ANALYSIS_PATH\<close> in the process environment (the workflow, the
  job number and the branches are not read): it is that state with \<^verbatim>\<open>analysis_path\<close>
  set and the three policy directives appended. So two calls on objects in equal states
  in the same process environment produce equal configurations, while a second call on
  the same object appends the directives again and produces a different configuration.
\<close>

theorem htcondor_job_config_deterministic:
  assumes "st1 config1 = st2 config2"
    and "os_getenv env1 ''ANALYSIS_PATH'' = os_getenv env2 ''ANALYSIS_PATH''"
  shows "snd (htcondor_job_config_inplace self1 env1 st1 config1 job_num1 branches1) config1
       = snd (htcondor_job_config_inplace self2 env2 st2 config2 job_num2 branches2) config2
     \<and> snd (htcondor_job_config_inplace self1 env1 st1 config1 job_num1 branches1) config1
       = (st1 config1)\<lparr>
           render_variables :=
             (render_variables (st1 config1))
               (''analysis_path'' \<mapsto> os_getenv env1 ''ANALYSIS_PATH''),
           custom_content :=
             custom_content (st1 config1)
               @ [requirements_directive, getenv_directive, on_exit_hold_directive]\<rparr>
     \<and> snd (htcondor_job_config_inplace self1 env1
            (snd (htcondor_job_config_inplace self1 env1 st1 config1 job_num1 branches1))
            config1 job_num1 branches1) config1
       \<noteq> snd (htcondor_job_config_inplace self1 env1 st1 config1 job_num1 branches1) config1"
proof -
  let ?st = "snd (htcondor_job_config_inplace self1 env1 st1 config1 job_num1 branches1)"
  let ?st' = "snd (htcondor_job_config_inplace self1 env1 ?st config1 job_num1 branches1)"
  have "custom_content (?st' config1) \<noteq> custom_content (?st config1)"
    by (simp add: htcondor_job_config_inplace_def custom_content_htcondor_job_config)
  then have "?st' config1 \<noteq> ?st config1"
    by metis
  with assms show ?thesis
    by (simp add: htcondor_job_config_inplace_object)
qed

theorem htcondor_job_config_deterministic_witness:
  "example_store 0 = (example_store(1 := example_config)) 1
   \<and> os_getenv [''ANALYSIS_PATH'' \<mapsto> ''/afs/analysis'', ''HOME'' \<mapsto> ''/home/a'']
         ''ANALYSIS_PATH''
       = os_getenv [''ANALYSIS_PATH'' \<mapsto> ''/afs/analysis''] ''ANALYSIS_PATH''
   \<and> snd (htcondor_job_config_inplace example_workflow
        [''ANALYSIS_PATH'' \<mapsto> ''/afs/analysis'', ''HOME'' \<mapsto> ''/home/a'']
        example_store 0 0 [0]) 0
     = snd (htcondor_job_config_inplace (example_workflow\<lparr>max_runtime := 5\<rparr>)
        [''ANALYSIS_PATH'' \<mapsto> ''/afs/analysis'']
        (example_store(1 := example_config)) 1 7 [1, 2]) 1"
proof -
  have h1: "example_store 0 = (example_store(1 := example_config)) 1"
    by (simp add: example_store_def)
  have h2: "os_getenv [''ANALYSIS_PATH'' \<mapsto> ''/afs/analysis'', ''HOME'' \<mapsto> ''/home/a'']
              ''ANALYSIS_PATH''
            = os_getenv [''ANALYSIS_PATH'' \<mapsto> ''/afs/analysis''] ''ANALYSIS_PATH''"
    by (simp add: os_getenv_def)
  from h1 h2 htcondor_job_config_deterministic
      [where ?st1.0 = example_store and ?config1.0 = 0
         and ?st2.0 = "example_store(1 := example_config)" and ?config2.0 = 1
         and ?env1.0 = "[''ANALYSIS_PATH'' \<mapsto> ''/afs/analysis'', ''HOME'' \<mapsto> ''/home/a'']"
         and ?env2.0 = "[''ANALYSIS_PATH'' \<mapsto> ''/afs/analysis'']"
         and ?self1.0 = example_workflow
         and ?self2.0 = "example_workflow\<lparr>max_runtime := 5\<rparr>"
         and ?job_num1.0 = 0 and ?branches1.0 = "[0]"
         and ?job_num2.0 = 7 and ?branches2.0 = "[1, 2]", OF h1 h2]
  show ?thesis
    by blast
qed

text \<open>
  Claim C3. The hook includes no \<^verbatim>\<open>+MaxRuntime\<close> directive, whatever the value of the
  workflow's \<^verbatim>\<open>max_runtime\<close> parameter (the statement that would append it is
  disabled): none of the directives it appends has that key, so the rendered list holds
  such a directive exactly when the incoming list already held one.
\<close>

theorem no_MaxRuntime_directive:
  "''+MaxRuntime'' \<notin> fst ` set (drop (length (custom_content config))
       (custom_content (htcondor_job_config self env config job_num branches)))
   \<and> (''+MaxRuntime'' \<in> fst ` set (custom_content
         (htcondor_job_config self env config job_num branches)))
      = (''+MaxRuntime'' \<in> fst ` set (custom_content config))"
  by (simp add: custom_content_htcondor_job_config requirements_directive_def
      getenv_directive_def on_exit_hold_directive_def)

text \<open>
  Claim C9. The frame of \<^verbatim>\<open>htcondor_job_config\<close>: the call returns the address of the
  configuration object it was given; in the store, only that object changes; of that
  object, \<^verbatim>\<open>render_variables\<close> changes at the single key \<^verbatim>\<open>analysis_path\<close>,
  \<^verbatim>\<open>custom_content\<close> keeps its entries, in their order, as a prefix of the new list, and
  every other attribute is unchanged.
\<close>

theorem htcondor_job_config_frame:
  "fst (htcondor_job_config_inplace self env st config job_num branches) = config
   \<and> snd (htcondor_job_config_inplace self env st config job_num branches)
       = st(config := snd (htcondor_job_config_inplace self env st config job_num branches) config)
   \<and> job_config.more (snd (htcondor_job_config_inplace self env st config job_num branches) config)
       = job_config.more (st config)
   \<and> render_variables (snd (htcondor_job_config_inplace self env st config job_num branches) config)
       = (render_variables (st config))(''analysis_path'' \<mapsto> os_getenv env ''ANALYSIS_PATH'')
   \<and> take (length (custom_content (st config)))
        (custom_content (snd (htcondor_job_config_inplace self env st config job_num branches) config))
       = custom_content (st config)
   \<and> drop (length (custom_content (st config)))
        (custom_content (snd (htcondor_job_config_inplace self env st config job_num branches) config))
       = [requirements_directive, getenv_directive, on_exit_hold_directive]"
  by (simp add: htcondor_job_config_inplace_def custom_content_htcondor_job_config
      render_variables_htcondor_job_config more_htcondor_job_config)

text \<open>
  Claim C6 as stated does not hold: the hook does not validate \<^verbatim>\<open>ANALYSIS_PATH\<close>. With
  the variable unset it stores \<^verbatim>\<open>None\<close> under \<^verbatim>\<open>analysis_path\<close>, with the variable
  empty it stores the empty string, and in both cases it returns the configuration.
\<close>

theorem analysis_path_unvalidated_counterexample:
  "render_variables (htcondor_job_config example_workflow Map.empty example_config 0 [0])
       ''analysis_path'' = Some PyNone
   \<and> render_variables (htcondor_job_config example_workflow [''ANALYSIS_PATH'' \<mapsto> []]
        example_config 0 [0]) ''analysis_path'' = Some (PyStr [])"
  by (simp add: render_variables_htcondor_job_config os_getenv_def)

text \<open>
  Claim C6, amended. At render time the value that \<^verbatim>\<open>os.getenv("ANALYSIS_PATH")\<close>
  returns is injected verbatim, and without validation, under the key
  \<^verbatim>\<open>analysis_path\<close>: the variable's string when it is set (also when that string is
  empty) and \<^verbatim>\<open>None\<close> when it is not set. Rendering does not fail.
\<close>

theorem analysis_path_injected_verbatim:
  "render_variables (htcondor_job_config self env config job_num branches) ''analysis_path''
     = Some (case env ''ANALYSIS_PATH'' of None \<Rightarrow> PyNone | Some v \<Rightarrow> PyStr v)"
  by (simp add: render_variables_htcondor_job_config os_getenv_def)

section \<open>Properties of the task's paths\<close>

lemma join_step_isabs:
  "os_path_isabs path \<Longrightarrow> os_path_isabs (join_step path b)"
  by (auto simp: os_path_isabs_def join_step_def startswith_def sep_def prefix_def)

lemma join_loop_isabs:
  "os_path_isabs path \<Longrightarrow> \<exists>p. join_loop path (map PyStr bs) = Inr p \<and> os_path_isabs p"
proof (induction bs arbitrary: path)
  case Nil
  then show ?case by simp
next
  case (Cons b bs)
  from Cons.prems have "os_path_isabs (join_step path b)"
    by (rule join_step_isabs)
  then show ?case
    using Cons.IH by simp
qed

text \<open>
  Claim C8. For every task and every sequence of path segments, \<^verbatim>\<open>local_path\<close> is
  \<^verbatim>\<open>os.path.join\<close> applied to the value of \<^verbatim>\<open>ANALYSIS_DATA_PATH\<close>, the name of the
  task's class, its version and then the given segments, in this order. This includes
  the case of an unset variable, where the first argument of the join is \<^verbatim>\<open>None\<close>.
\<close>

theorem local_path_is_join:
  "local_path self env path =
     os_path_join (os_getenv env ''ANALYSIS_DATA_PATH''
                   # PyStr (class_name self) # PyStr (version self) # map PyStr path)"
  by (simp add: local_path_def store_parts_def)

text \<open>
  Claim C7 as stated does not hold. Without \<^verbatim>\<open>ANALYSIS_DATA_PATH\<close> in the environment
  \<^verbatim>\<open>htcondor_output_directory\<close> raises \<^verbatim>\<open>TypeError\<close> and there is no output directory;
  with a relative value the path built by \<^verbatim>\<open>local_path\<close> is relative.
\<close>

theorem output_directory_absolute_counterexample:
  "htcondor_output_directory example_workflow Map.empty = Inl TypeError
   \<and> htcondor_output_directory example_workflow [''ANALYSIS_DATA_PATH'' \<mapsto> ''data'']
       = Inr (LocalDirectoryTarget ''data/CreateChars/v1'')
   \<and> \<not> os_path_isabs ''data/CreateChars/v1''"
  by (simp add: htcondor_output_directory_def local_path_def store_parts_def os_getenv_def
      example_workflow_def join_step_def startswith_def endswith_def sep_def os_path_isabs_def
      suffix_to_prefix)

text \<open>
  Claim C7, amended. For every task, when \<^verbatim>\<open>ANALYSIS_DATA_PATH\<close> is set to an absolute
  path, \<^verbatim>\<open>htcondor_output_directory\<close> returns a directory target and the path it is
  built from, the result of \<^verbatim>\<open>local_path()\<close>, is absolute.
\<close>

theorem output_directory_absolute:
  assumes "env ''ANALYSIS_DATA_PATH'' = Some d" and "os_path_isabs d"
  shows "\<exists>p. htcondor_output_directory self env = Inr (LocalDirectoryTarget p)
             \<and> local_path self env [] = Inr p \<and> os_path_isabs p"
proof -
  from assms(2) obtain p
    where p: "join_loop d (map PyStr [class_name self, version self]) = Inr p" "os_path_isabs p"
    using join_loop_isabs by blast
  from p(1) assms(1) have "local_path self env [] = Inr p"
    by (simp add: local_path_def store_parts_def os_getenv_def)
  with p(2) show ?thesis
    by (simp add: htcondor_output_directory_def)
qed

theorem output_directory_absolute_witness:
  "[''ANALYSIS_DATA_PATH'' \<mapsto> ''/nfs/data''] ''ANALYSIS_DATA_PATH'' = Some ''/nfs/data''
   \<and> os_path_isabs ''/nfs/data''
   \<and> htcondor_output_directory example_workflow [''ANALYSIS_DATA_PATH'' \<mapsto> ''/nfs/data'']
       = Inr (LocalDirectoryTarget ''/nfs/data/CreateChars/v1'')
   \<and> os_path_isabs ''/nfs/data/CreateChars/v1''"
proof -
  have h1: "[''ANALYSIS_DATA_PATH'' \<mapsto> ''/nfs/data''] ''ANALYSIS_DATA_PATH'' = Some ''/nfs/data''"
    by simp
  have h2: "os_path_isabs ''/nfs/data''"
    by (simp add: os_path_isabs_def startswith_def sep_def)
  have "local_path example_workflow [''ANALYSIS_DATA_PATH'' \<mapsto> ''/nfs/data''] []
          = Inr ''/nfs/data/CreateChars/v1''"
    by (simp add: local_path_def store_parts_def os_getenv_def example_workflow_def
        join_step_def startswith_def endswith_def sep_def suffix_to_prefix)
  with h1 h2 output_directory_absolute
      [where env = "[''ANALYSIS_DATA_PATH'' \<mapsto> ''/nfs/data'']" and d = "''/nfs/data''"
         and self = example_workflow]
  show ?thesis
    by auto
qed

text \<open>
  Claim C10 as stated does not hold: a task can be instantiated without an explicit
  version when a version is set for its task family on the command line or in luigi's
  configuration.
\<close>

theorem version_is_required_counterexample:
  "Task_init (no_settings(''CreateChars'' := [''version'' \<mapsto> ''v1''])) ''CreateChars'' None ()
     = Inr \<lparr>class_name = ''CreateChars'', version = ''v1''\<rparr>"
  by (simp add: Task_init_def parameter_value_def)

text \<open>
  Claim C10, amended. The \<^verbatim>\<open>version\<close> parameter of \<^verbatim>\<open>Task\<close> is declared without a
  default value, so for every inheriting task (any class name, any further attributes)
  instantiation without an explicit version fails, with \<^verbatim>\<open>MissingParameterException\<close>,
  exactly when no version is set for the task family on the command line or in luigi's
  configuration; an explicit version is taken as it is; and whenever a task is
  constructed, \<^verbatim>\<open>store_parts\<close> returns exactly the pair of its class name and its
  version.
\<close>

theorem version_is_required:
  "Task_version = Parameter None
   \<and> (Task_init settings cls None ext = Inl MissingParameterException)
       = (settings cls ''version'' = None)
   \<and> Task_init no_settings cls None ext = Inl MissingParameterException
   \<and> Task_init settings cls (Some v) ext = Inr \<lparr>class_name = cls, version = v, \<dots> = ext\<rparr>
   \<and> (case Task_init settings cls version_arg ext of
         Inl e \<Rightarrow> e = MissingParameterException
       | Inr t \<Rightarrow> class_name t = cls \<and> store_parts t = (cls, version t))
   \<and> store_parts self = (class_name self, version self)"
  by (simp add: Task_init_def Task_version_def parameter_value_def store_parts_def
      no_settings_def split: option.splits)

section \<open>The hold policy\<close>

lemma unparse_on_exit_hold_expr:
  "unparse on_exit_hold_expr = ''(ExitBySignal == True) || (ExitStatus != 0) || (ExitCode != 0)''"
  by (simp add: on_exit_hold_expr_def digits.simps [of 0])

lemma classad_or_True:
  "(classad_or x y = Some True) = (x = Some True \<or> y = Some True)"
  by (cases "(x, y)" rule: classad_or.cases) auto

lemma holds_on_exit_hold_expr:
  "holds ad on_exit_hold_expr = nonzero_exit ad"
  by (auto simp: holds_def on_exit_hold_expr_def nonzero_exit_def classad_or_True
      split: option.splits)

text \<open>
  Claim C4. Every rendered job configuration contains an \<^verbatim>\<open>on_exit_hold\<close> directive;
  its value is the concrete syntax of \<open>on_exit_hold_expr\<close>, and this predicate is true
  exactly for a job that exits by signal or with a nonzero exit status or exit code. In
  the supervisor's state machine a running job with such an exit becomes Held, which is
  not a terminal state.
\<close>

theorem on_exit_hold_policy:
  "(''on_exit_hold'', unparse on_exit_hold_expr)
      \<in> set (custom_content (htcondor_job_config self env config job_num branches))
   \<and> on_exit_hold_directive = (''on_exit_hold'', unparse on_exit_hold_expr)
   \<and> holds ad on_exit_hold_expr = nonzero_exit ad
   \<and> supervisor_step on_exit_hold_expr Running (JobExited ad) =
       (if nonzero_exit ad then Held else if ExitCode ad = Some 0 then Completed else Running)
   \<and> \<not> terminal Held"
  by (simp add: custom_content_htcondor_job_config unparse_on_exit_hold_expr
      on_exit_hold_directive_def holds_on_exit_hold_expr)

section \<open>Construction of the workflow\<close>

text \<open>
  Claim C5 as stated does not hold: a workflow whose \<^verbatim>\<open>max_runtime\<close> is zero or
  negative is constructed, and no \<^verbatim>\<open>InvalidDescriptor\<close> is raised.
\<close>

theorem max_runtime_validated_counterexample:
  "HTCondorWorkflow_init no_settings no_settings ''CreateChars'' (Some ''v1'') (Some 0)
     = Inr \<lparr>class_name = ''CreateChars'', version = ''v1'', max_runtime = 0\<rparr>
   \<and> HTCondorWorkflow_init no_settings no_settings ''CreateChars'' (Some ''v1'') (Some (- 1))
     = Inr \<lparr>class_name = ''CreateChars'', version = ''v1'', max_runtime = - 1\<rparr>"
  by (simp add: HTCondorWorkflow_init_def parameter_value_def)

text \<open>
  Claim C5, amended. Constructing a workflow does not validate \<^verbatim>\<open>max_runtime\<close>: a value
  that is given is stored as it is, also when it is not strictly positive, and
  construction never fails with \<^verbatim>\<open>InvalidDescriptor\<close>. Without a given or configured
  value \<^verbatim>\<open>max_runtime\<close> is the declared default of three hours, which is positive. The
  workflow declares no memory or cpu request.
\<close>

theorem max_runtime_unvalidated:
  "HTCondorWorkflow_init version_settings duration_settings cls (Some v) (Some r)
     = Inr \<lparr>class_name = cls, version = v, max_runtime = r\<rparr>
   \<and> HTCondorWorkflow_init version_settings no_settings cls (Some v) None
     = Inr \<lparr>class_name = cls, version = v, max_runtime = 3\<rparr>
   \<and> HTCondorWorkflow_max_runtime = Parameter (Some 3)
   \<and> HTCondorWorkflow_init version_settings duration_settings cls version_arg max_runtime_arg
     \<noteq> Inl InvalidDescriptor"
  by (simp add: HTCondorWorkflow_init_def HTCondorWorkflow_max_runtime_def Task_version_def
      parameter_value_def no_settings_def split: option.splits)

section \<open>Further properties\<close>

lemma join_step_isabs_iff:
  "os_path_isabs (join_step path b) = (os_path_isabs path \<or> os_path_isabs b)"
  by (cases path; cases b)
    (auto simp: os_path_isabs_def join_step_def startswith_def endswith_def sep_def)

lemma join_loop_strings:
  "\<exists>p. join_loop path (map PyStr bs) = Inr p
     \<and> os_path_isabs p = (os_path_isabs path \<or> list_ex os_path_isabs bs)"
proof (induction bs arbitrary: path)
  case Nil
  then show ?case by simp
next
  case (Cons b bs)
  from Cons.IH [of "join_step path b"] obtain p
    where "join_loop (join_step path b) (map PyStr bs) = Inr p"
      and "os_path_isabs p = (os_path_isabs (join_step path b) \<or> list_ex os_path_isabs bs)"
    by blast
  then show ?case
    by (simp add: join_step_isabs_iff)
qed

text \<open>
  Extra X1. The result of \<^verbatim>\<open>htcondor_output_directory\<close> in full: \<^verbatim>\<open>TypeError\<close> when
  \<^verbatim>\<open>ANALYSIS_DATA_PATH\<close> is not set, and otherwise the directory target of the variable's
  value joined with the class name and the version; that path is absolute exactly when
  one of the three parts is.
\<close>

theorem output_directory_result:
  "htcondor_output_directory self env =
     (case env ''ANALYSIS_DATA_PATH'' of
        None \<Rightarrow> Inl TypeError
      | Some d \<Rightarrow> Inr (LocalDirectoryTarget
          (join_step (join_step d (class_name self)) (version self))))
   \<and> os_path_isabs (join_step (join_step d (class_name self)) (version self))
     = (os_path_isabs d \<or> os_path_isabs (class_name self) \<or> os_path_isabs (version self))"
  by (simp add: htcondor_output_directory_def local_path_def store_parts_def os_getenv_def
      join_step_isabs_iff split: option.splits)

text \<open>
  Extra X2. \<^verbatim>\<open>local_path\<close> fails exactly when \<^verbatim>\<open>ANALYSIS_DATA_PATH\<close> is not set, and then
  with \<^verbatim>\<open>TypeError\<close>; when the variable is set it returns a path for every sequence
  of segments.
\<close>

theorem local_path_fails_iff_unset:
  "(local_path self env path = Inl e) = (env ''ANALYSIS_DATA_PATH'' = None \<and> e = TypeError)
   \<and> (\<exists>p. local_path self env path = Inr p) = (env ''ANALYSIS_DATA_PATH'' \<noteq> None)"
proof (cases "env ''ANALYSIS_DATA_PATH''")
  case None
  then show ?thesis
    by (auto simp: local_path_def os_getenv_def)
next
  case (Some d)
  obtain p where "join_loop d (map PyStr (class_name self # version self # path)) = Inr p"
    using join_loop_strings by blast
  with Some show ?thesis
    by (simp add: local_path_def store_parts_def os_getenv_def)
qed

lemma endswith_sep:
  "endswith s sep = (s \<noteq> [] \<and> last s = CHR ''/'')"
  by (cases s rule: rev_cases) (auto simp: endswith_def sep_def suffix_def)

lemma join_loop_plain:
  "path \<noteq> [] \<Longrightarrow> \<not> endswith path sep \<Longrightarrow> list_all plain_segment bs \<Longrightarrow>
   join_loop path (map PyStr bs) = Inr (path @ concat (map (\<lambda>b. sep @ b) bs))"
proof (induction bs arbitrary: path)
  case Nil
  then show ?case by simp
next
  case (Cons b bs)
  from Cons.prems have b: "b \<noteq> []" "\<not> startswith b sep" "\<not> endswith b sep"
    by (simp_all add: plain_segment_def)
  with Cons.prems have step: "join_step path b = path @ sep @ b"
    by (simp add: join_step_def)
  from b have "path @ sep @ b \<noteq> []" "\<not> endswith (path @ sep @ b) sep"
    by (simp_all add: endswith_sep)
  with Cons.IH [of "path @ sep @ b"] Cons.prems(3) step show ?case
    by simp
qed

text \<open>
  Extra X3. The directory convention of \<^verbatim>\<open>local_path\<close>: when \<^verbatim>\<open>ANALYSIS_DATA_PATH\<close> is
  set to a non-empty value without a trailing separator, and the class name, the
  version and the segments are non-empty and neither start nor end with the separator,
  the path is the variable's value followed by the class name, the version and the
  segments, each preceded by one separator.
\<close>

theorem local_path_convention:
  assumes "env ''ANALYSIS_DATA_PATH'' = Some d"
    and "d \<noteq> []" and "\<not> endswith d sep"
    and "list_all plain_segment (class_name self # version self # path)"
  shows "local_path self env path =
     Inr (d @ concat (map (\<lambda>b. sep @ b) (class_name self # version self # path)))"
  using assms join_loop_plain [of d "class_name self # version self # path"]
  by (simp add: local_path_def store_parts_def os_getenv_def)

theorem local_path_convention_witness:
  "local_path example_workflow [''ANALYSIS_DATA_PATH'' \<mapsto> ''/nfs/data''] [''chars'', ''out.json'']
     = Inr ''/nfs/data/CreateChars/v1/chars/out.json''"
proof -
  have h1: "[''ANALYSIS_DATA_PATH'' \<mapsto> ''/nfs/data''] ''ANALYSIS_DATA_PATH'' = Some ''/nfs/data''"
    by simp
  have h2: "''/nfs/data'' \<noteq> []"
    by simp
  have h3: "\<not> endswith ''/nfs/data'' sep"
    by (simp add: endswith_sep)
  have h4: "list_all plain_segment
      (class_name example_workflow # version example_workflow # [''chars'', ''out.json''])"
    by (simp add: plain_segment_def example_workflow_def endswith_def startswith_def sep_def
        suffix_to_prefix)
  from local_path_convention
      [where env = "[''ANALYSIS_DATA_PATH'' \<mapsto> ''/nfs/data'']" and d = "''/nfs/data''"
         and self = example_workflow and path = "[''chars'', ''out.json'']", OF h1 h2 h3 h4]
  show ?thesis
    by (simp add: example_workflow_def sep_def)
qed

end
